theory Spec2Isabelle
  imports Main
begin

section \<open>The workshop infrastructure stack\<close>

text \<open>
  A shallow embedding of \<^verbatim>\<open>resources/beam-on-kda/cdk/lib/workshop-infrastructure.ts\<close>.
  The constructor of \<^verbatim>\<open>WorkshopInfrastructure\<close> declares resources one after the
  other in the scope of the stack and, for some of them, calls a method that adds a rule,
  a policy statement or a subscription to a resource declared before. The embedding keeps
  that shape: the state is the scope with the stack under construction attached to it,
  \<^verbatim>\<open>super(scope, id, props)\<close> attaches the empty stack, each
  \<^verbatim>\<open>new C(this, id, props)\<close> appends a child to it, each mutating call rewrites
  the child it is called on, and \<^verbatim>\<open>fs.readFileSync\<close> either returns the
  contents or raises, leaving the scope as it is by then.

  The classes of the AWS CDK are a library, not code of this repository: a declared
  resource is represented by the properties the constructor passes, and what the library
  derives from them when it writes the template is outside the model.
\<close>

subsection \<open>Strings that may hold deploy-time tokens\<close>

text \<open>
  A TypeScript template literal over plain strings is a string. Attributes of declared
  resources (\<^verbatim>\<open>bucket.bucketName\<close>) and the pseudo parameters
  (\<^verbatim>\<open>cdk.Aws.REGION\<close>) are tokens, whose text is only known at deployment. A
  template literal is kept as the list of its parts, in the order written.
\<close>

datatype AwsPseudo = PARTITION | REGION | ACCOUNT_ID

datatype Attribute =
    BucketName | FunctionName | TopicName | RoleName | SecurityGroupName
  | PublicSubnetId nat | Ref

datatype Token = Aws AwsPseudo | Attr string Attribute

datatype Fragment = Lit string | Tok Token

type_synonym tstring = "Fragment list"

fun resolveFragment :: "(Token \<Rightarrow> string) \<Rightarrow> Fragment \<Rightarrow> string" where
  "resolveFragment env (Lit s) = s"
| "resolveFragment env (Tok t) = env t"

definition resolve :: "(Token \<Rightarrow> string) \<Rightarrow> tstring \<Rightarrow> string" where
  "resolve env t = concat (map (resolveFragment env) t)"

subsection \<open>The configuration bundle\<close>

text \<open>
  \<^verbatim>\<open>WorkshopInfrastructureProps extends cdk.StackProps\<close>: the four fields of the
  interface; the inherited fields of the library are the extension slot of the record.
\<close>

record WorkshopInfrastructureProps =
  kinesisReplayVersion :: string
  beamApplicationVersion :: string
  beamApplicationJarFile :: string
  appName :: string

subsection \<open>Declared resources\<close>

datatype RemovalPolicy = DESTROY | RETAIN | SNAPSHOT

record BucketDecl =
  versioned :: bool
  removalPolicy :: RemovalPolicy

record EmptyBucketOnDeleteDecl =
  emptiedBucket :: string

record CfnOutputDecl =
  value' :: tstring

datatype SubnetType = ISOLATED | PRIVATE | PUBLIC

record SubnetConfiguration =
  subnetName :: string
  subnetType :: SubnetType

record VpcDecl =
  subnetConfiguration :: "SubnetConfiguration list"

datatype Peer = CidrIPv4 string | SecurityGroupPeer string

datatype Port = Tcp nat | AllTraffic

record SecurityGroupDecl =
  vpc :: string
  ingressRules :: "(Peer \<times> Port) list"

record 'sp WindowsDevEnvironmentDecl =
  passedProps :: "'sp WorkshopInfrastructureProps_scheme"
  devVpc :: string
  devSg :: string
  devBucket :: string

record GithubBuildPipelineDecl =
  url :: tstring
  destinationBucket :: string
  extract' :: bool

datatype Runtime = NODEJS_12_X | PYTHON_3_7

datatype Duration = Seconds nat | Minutes nat

datatype Code = Inline string

record PolicyStatement =
  actions :: "string list"
  resources :: "tstring list"

record FunctionDecl =
  runtime :: Runtime
  code :: Code
  timeout :: Duration
  handler :: string
  memorySize :: "nat option"
  environment :: "(string \<times> string) list"
  rolePolicy :: "PolicyStatement list"

datatype Subscription = LambdaSubscription string

record TopicDecl =
  subscriptions :: "Subscription list"

datatype Principal = ServicePrincipal string

datatype ManagedPolicy = AwsManagedPolicyName string

datatype Grant = GrantRead string

record RoleDecl =
  assumedBy :: Principal
  managedPolicies :: "ManagedPolicy list"
  policy :: "PolicyStatement list"
  grants :: "Grant list"

record CfnInstanceProfileDecl =
  roles :: "tstring list"

record InstanceGroupConfig =
  instanceCount :: nat
  instanceType :: string
  groupName :: string

record JobFlowInstancesConfig =
  masterInstanceGroup :: InstanceGroupConfig
  coreInstanceGroup :: InstanceGroupConfig
  additionalMasterSecurityGroups :: "tstring list"
  ec2SubnetId :: tstring

record ApplicationProperty =
  applicationName :: string

record CfnClusterDecl =
  clusterName :: string
  applications :: "ApplicationProperty list"
  instances :: JobFlowInstancesConfig
  serviceRole :: tstring
  releaseLabel :: string
  visibleToAllUsers :: bool
  jobFlowRole :: tstring

datatype 'sp Construct =
    Bucket BucketDecl
  | EmptyBucketOnDelete EmptyBucketOnDeleteDecl
  | CfnOutput CfnOutputDecl
  | Vpc VpcDecl
  | SecurityGroup SecurityGroupDecl
  | WindowsDevEnvironment "'sp WindowsDevEnvironmentDecl"
  | GithubBuildPipeline GithubBuildPipelineDecl
  | LambdaFunction FunctionDecl
  | Topic TopicDecl
  | Role RoleDecl
  | CfnInstanceProfile CfnInstanceProfileDecl
  | CfnCluster CfnClusterDecl

subsection \<open>The scope and the stack as a state\<close>

text \<open>
  The scope is the construct the stack is attached to: the list of the stacks it holds,
  in the order they were attached. \<^verbatim>\<open>super(scope, id, props)\<close> is the first
  statement of the constructor (line 28): from then on the scope holds the new stack,
  after the ones it held, and \<^verbatim>\<open>this\<close> is that stack. Every later statement
  works on \<^verbatim>\<open>this\<close> where it hangs in the scope.
\<close>

record 'sp Stack =
  stackId :: string
  stackProps :: "'sp WorkshopInfrastructureProps_scheme"
  children :: "(string \<times> 'sp Construct) list"

type_synonym 'sp Scope = "'sp Stack list"

record 'sp Tree =
  earlier :: "'sp Scope"
  this :: "'sp Stack"

definition scopeOf :: "'sp Tree \<Rightarrow> 'sp Scope" where
  "scopeOf t = earlier t @ [this t]"

definition super ::
  "'sp Scope \<Rightarrow> string \<Rightarrow> 'sp WorkshopInfrastructureProps_scheme \<Rightarrow> 'sp Tree" where
  "super scope ident props =
     \<lparr>earlier = scope, this = \<lparr>stackId = ident, stackProps = props, children = []\<rparr>\<rparr>"

definition new :: "string \<Rightarrow> 'sp Construct \<Rightarrow> 'sp Tree \<Rightarrow> 'sp Tree" where
  "new ident c t = t\<lparr>this := (this t)\<lparr>children := children (this t) @ [(ident, c)]\<rparr>\<rparr>"

definition modify ::
  "string \<Rightarrow> ('sp Construct \<Rightarrow> 'sp Construct) \<Rightarrow> 'sp Tree \<Rightarrow> 'sp Tree" where
  "modify ident f t =
     t\<lparr>this := (this t)\<lparr>children :=
        map (\<lambda>(i, c). if i = ident then (i, f c) else (i, c)) (children (this t))\<rparr>\<rparr>"

subsection \<open>Calls that change a resource declared before\<close>

text \<open>
  An object reference of the source (\<^verbatim>\<open>bucket\<close>, \<^verbatim>\<open>sg\<close>,
  \<^verbatim>\<open>terminateAppLambda\<close>) is the id of the child it was declared under. Each call
  appends to a list of the resource it is called on and leaves every other child as it is.
\<close>

definition addIngressRule :: "string \<Rightarrow> Peer \<Rightarrow> Port \<Rightarrow> 'sp Tree \<Rightarrow> 'sp Tree" where
  "addIngressRule sg peer port =
     modify sg (\<lambda>c. case c of
        SecurityGroup d \<Rightarrow> SecurityGroup (d\<lparr>ingressRules := ingressRules d @ [(peer, port)]\<rparr>)
      | _ \<Rightarrow> c)"

definition addToRolePolicy :: "string \<Rightarrow> PolicyStatement \<Rightarrow> 'sp Tree \<Rightarrow> 'sp Tree" where
  "addToRolePolicy fn statement =
     modify fn (\<lambda>c. case c of
        LambdaFunction d \<Rightarrow> LambdaFunction (d\<lparr>rolePolicy := rolePolicy d @ [statement]\<rparr>)
      | _ \<Rightarrow> c)"

definition addSubscription :: "string \<Rightarrow> Subscription \<Rightarrow> 'sp Tree \<Rightarrow> 'sp Tree" where
  "addSubscription topic subscription =
     modify topic (\<lambda>c. case c of
        Topic d \<Rightarrow> Topic (d\<lparr>subscriptions := subscriptions d @ [subscription]\<rparr>)
      | _ \<Rightarrow> c)"

definition addToPolicy :: "string \<Rightarrow> PolicyStatement \<Rightarrow> 'sp Tree \<Rightarrow> 'sp Tree" where
  "addToPolicy role statement =
     modify role (\<lambda>c. case c of
        Role d \<Rightarrow> Role (d\<lparr>policy := policy d @ [statement]\<rparr>)
      | _ \<Rightarrow> c)"

definition grantRead :: "string \<Rightarrow> string \<Rightarrow> 'sp Tree \<Rightarrow> 'sp Tree" where
  "grantRead bucket grantee =
     modify grantee (\<lambda>c. case c of
        Role d \<Rightarrow> Role (d\<lparr>grants := grants d @ [GrantRead bucket]\<rparr>)
      | _ \<Rightarrow> c)"

text \<open>
  Modelled from the spec: \<^verbatim>\<open>ec2.Peer.anyIpv4()\<close> belongs to the AWS CDK, which is
  not part of this repository; the spec gives the address range it stands for as
  \<^verbatim>\<open>0.0.0.0/0\<close>.
\<close>

definition anyIpv4 :: Peer where
  "anyIpv4 = CidrIPv4 ''0.0.0.0/0''"

subsection \<open>Reading the lambda sources\<close>

text \<open>
  The file system is a partial map from paths to contents; a path outside its domain
  cannot be read, and \<^verbatim>\<open>fs.readFileSync\<close> raises there.
\<close>

type_synonym filesystem = "string \<Rightarrow> string option"

datatype error = ReadFileError string

definition readFileSync :: "filesystem \<Rightarrow> string \<Rightarrow> error + string" where
  "readFileSync fs path =
     (case fs path of None \<Rightarrow> Inl (ReadFileError path) | Some contents \<Rightarrow> Inr contents)"

subsection \<open>The constructor\<close>

text \<open>
  The constructor is straight-line code with two reads in it. Its three runs of
  statements are three state transformers (lines 28 to 75, 81 to 90 and 96 to 205 of
  the source); \<open>WorkshopInfrastructure\<close> chains them around the reads. Its result
  is what the caller is left with: the new stack or the exception of a read, and the
  scope as the constructor leaves it. When a read raises, the scope holds the stack with
  the children declared up to that read.

  A \<^verbatim>\<open>lambda.Function\<close> is declared without a \<^verbatim>\<open>role\<close> property in both
  places, so each comes with a role of its own: the role that
  \<^verbatim>\<open>addToRolePolicy\<close> (line 107) adds its statement to, kept in the field
  \<open>rolePolicy\<close> of the function.
\<close>

definition declareStorageNetworkPipeline ::
  "'sp Scope \<Rightarrow> string \<Rightarrow> 'sp WorkshopInfrastructureProps_scheme \<Rightarrow> 'sp Tree" where
  "declareStorageNetworkPipeline scope ident props =
    (let s = super scope ident props;
         s = new ''Bucket'' (Bucket \<lparr>versioned = True, removalPolicy = DESTROY\<rparr>) s;
         s = new ''EmptyBucket'' (EmptyBucketOnDelete \<lparr>emptiedBucket = ''Bucket''\<rparr>) s;
         s = new ''S3Bucket'' (CfnOutput \<lparr>value' = [Tok (Attr ''Bucket'' BucketName)]\<rparr>) s;
         s = new ''InputS3Pattern'' (CfnOutput \<lparr>value' =
               [Lit ''s3://'', Tok (Attr ''Bucket'' BucketName),
                Lit ''/historic-trip-events/*/*/*/*/*'']\<rparr>) s;
         s = new ''Vpc'' (Vpc \<lparr>subnetConfiguration =
               [\<lparr>subnetName = ''public'', subnetType = PUBLIC\<rparr>]\<rparr>) s;
         s = new ''SecurityGroup'' (SecurityGroup \<lparr>vpc = ''Vpc'', ingressRules = []\<rparr>) s;
         s = addIngressRule ''SecurityGroup'' anyIpv4 (Tcp 3389) s;
         s = addIngressRule ''SecurityGroup'' (SecurityGroupPeer ''SecurityGroup'') AllTraffic s;
         s = new ''WindowsDevEnvironment'' (WindowsDevEnvironment
               \<lparr>passedProps = props, devVpc = ''Vpc'', devSg = ''SecurityGroup'',
                devBucket = ''Bucket''\<rparr>) s;
         s = new ''BeamConsumerBuildPipeline'' (GithubBuildPipeline
               \<lparr>url = [Lit ''https://github.com/aws-samples/amazon-kinesis-analytics-beam-taxi-consumer/archive/'',
                       Lit (beamApplicationVersion props), Lit ''.zip''],
                destinationBucket = ''Bucket'', extract' = True\<rparr>) s;
         s = new ''BeamConsumerJarPath'' (CfnOutput \<lparr>value' =
               [Lit ''target/'', Lit (beamApplicationJarFile props)]\<rparr>) s
     in s)"

definition declareEnrichEvents :: "string \<Rightarrow> 'sp Tree \<Rightarrow> 'sp Tree" where
  "declareEnrichEvents addTimestamplambdaSource s0 =
    (let s = new ''EnrichEventsLambda'' (LambdaFunction
               \<lparr>runtime = NODEJS_12_X, code = Inline addTimestamplambdaSource,
                timeout = Seconds 60, handler = ''index.handler'', memorySize = None,
                environment = [], rolePolicy = []\<rparr>) s0;
         s = new ''FirehoseTransformationLambda'' (CfnOutput \<lparr>value' =
               [Tok (Attr ''EnrichEventsLambda'' FunctionName)]\<rparr>) s
     in s)"

definition declareTerminationRolesCluster ::
  "string \<Rightarrow> 'sp WorkshopInfrastructureProps_scheme \<Rightarrow> 'sp Tree \<Rightarrow> 'sp Tree" where
  "declareTerminationRolesCluster stopApplicationlambdaSource props s0 =
    (let s = new ''TerminateAppLambda'' (LambdaFunction
               \<lparr>runtime = PYTHON_3_7, code = Inline stopApplicationlambdaSource,
                timeout = Minutes 15, handler = ''index.empty_bucket'',
                memorySize = Some 512,
                environment = [(''application_name'', appName props)],
                rolePolicy = []\<rparr>) s0;
         s = addToRolePolicy ''TerminateAppLambda''
               \<lparr>actions = [''kinesisanalytics:StopApplication''],
                resources =
                  [[Lit ''arn:'', Tok (Aws PARTITION), Lit '':kinesisanalytics:'',
                    Tok (Aws REGION), Lit '':'', Tok (Aws ACCOUNT_ID),
                    Lit '':application/'', Lit (appName props)]]\<rparr> s;
         s = new ''ApplicationTerminatedTopic'' (Topic \<lparr>subscriptions = []\<rparr>) s;
         s = addSubscription ''ApplicationTerminatedTopic''
               (LambdaSubscription ''TerminateAppLambda'') s;
         s = new ''ApplicationTerminatedTopicName'' (CfnOutput \<lparr>value' =
               [Tok (Attr ''ApplicationTerminatedTopic'' TopicName)]\<rparr>) s;
         s = new ''KdaRole'' (Role
               \<lparr>assumedBy = ServicePrincipal ''kinesisanalytics.amazonaws.com'',
                managedPolicies = [], policy = [], grants = []\<rparr>) s;
         s = addToPolicy ''KdaRole''
               \<lparr>actions = [''logs:Describe*'', ''logs:PutLogEvents'', ''kinesis:List*'',
                           ''kinesis:Describe*'', ''kinesis:Get*'', ''kinesis:SubscribeToShard''],
                resources = [[Lit ''*'']]\<rparr> s;
         s = grantRead ''Bucket'' ''KdaRole'' s;
         s = new ''EmrClusterRole'' (Role
               \<lparr>assumedBy = ServicePrincipal ''elasticmapreduce.amazonaws.com'',
                managedPolicies =
                  [AwsManagedPolicyName ''service-role/AmazonElasticMapReduceRole''],
                policy = [], grants = []\<rparr>) s;
         s = new ''EmrInstanceRole'' (Role
               \<lparr>assumedBy = ServicePrincipal ''ec2.amazonaws.com'',
                managedPolicies =
                  [AwsManagedPolicyName ''service-role/AmazonElasticMapReduceforEC2Role'',
                   AwsManagedPolicyName ''AmazonSSMManagedInstanceCore''],
                policy = [], grants = []\<rparr>) s;
         s = new ''EmrInstanceProfile'' (CfnInstanceProfile
               \<lparr>roles = [[Tok (Attr ''EmrInstanceRole'' RoleName)]]\<rparr>) s;
         s = new ''EmrCluster'' (CfnCluster
               \<lparr>clusterName = ''beam-workshop'',
                applications =
           [\<lparr>applicationName = ''Hadoop''\<rparr>, \<lparr>applicationName = ''Ganglia''\<rparr>,
            \<lparr>applicationName = ''Flink''\<rparr>, \<lparr>applicationName = ''ZooKeeper''\<rparr>],
                instances =
                  \<lparr>masterInstanceGroup =
                     \<lparr>instanceCount = 1, instanceType = ''c5n.xlarge'', groupName = ''Master''\<rparr>,
                   coreInstanceGroup =
                     \<lparr>instanceCount = 2, instanceType = ''r5.xlarge'', groupName = ''Core''\<rparr>,
                   additionalMasterSecurityGroups =
                     [[Tok (Attr ''SecurityGroup'' SecurityGroupName)]],
                   ec2SubnetId = [Tok (Attr ''Vpc'' (PublicSubnetId 0))]\<rparr>,
                serviceRole = [Tok (Attr ''EmrClusterRole'' RoleName)],
                releaseLabel = ''emr-5.27.0'',
                visibleToAllUsers = True,
                jobFlowRole = [Tok (Attr ''EmrInstanceProfile'' Ref)]\<rparr>) s
     in s)"

definition WorkshopInfrastructure ::
  "filesystem \<Rightarrow> 'sp Scope \<Rightarrow> string \<Rightarrow> 'sp WorkshopInfrastructureProps_scheme \<Rightarrow>
     (error + 'sp Stack) \<times> 'sp Scope" where
  "WorkshopInfrastructure fs scope ident props =
    (let s = declareStorageNetworkPipeline scope ident props in
     case readFileSync fs ''lambda/add-approximate-arrival-time.js'' of
       Inl e \<Rightarrow> (Inl e, scopeOf s)
     | Inr addTimestamplambdaSource \<Rightarrow>
        (let s = declareEnrichEvents addTimestamplambdaSource s in
         case readFileSync fs ''lambda/stop-kda-app.py'' of
           Inl e \<Rightarrow> (Inl e, scopeOf s)
         | Inr stopApplicationlambdaSource \<Rightarrow>
            (let s = declareTerminationRolesCluster stopApplicationlambdaSource props s
             in (Inr (this s), scopeOf s))))"

subsection \<open>Reading the synthesized graph\<close>

datatype Kind =
    KBucket | KEmptyBucketOnDelete | KCfnOutput | KVpc | KSecurityGroup
  | KWindowsDevEnvironment | KGithubBuildPipeline | KFunction | KTopic | KRole
  | KCfnInstanceProfile | KCfnCluster

fun kind :: "'sp Construct \<Rightarrow> Kind" where
  "kind (Bucket d) = KBucket"
| "kind (EmptyBucketOnDelete d) = KEmptyBucketOnDelete"
| "kind (CfnOutput d) = KCfnOutput"
| "kind (Vpc d) = KVpc"
| "kind (SecurityGroup d) = KSecurityGroup"
| "kind (WindowsDevEnvironment d) = KWindowsDevEnvironment"
| "kind (GithubBuildPipeline d) = KGithubBuildPipeline"
| "kind (LambdaFunction d) = KFunction"
| "kind (Topic d) = KTopic"
| "kind (Role d) = KRole"
| "kind (CfnInstanceProfile d) = KCfnInstanceProfile"
| "kind (CfnCluster d) = KCfnCluster"

text \<open>
  The resources of the graph, by kind: every child of the stack, and under each function
  the role it comes with.
\<close>

fun resourcesOf :: "string \<Rightarrow> 'sp Construct \<Rightarrow> (string \<times> Kind) list" where
  "resourcesOf i (LambdaFunction d) = [(i, KFunction), (i @ ''/ServiceRole'', KRole)]"
| "resourcesOf i c = [(i, kind c)]"

definition resources :: "'sp Stack \<Rightarrow> (string \<times> Kind) list" where
  "resources s = concat (map (\<lambda>(i, c). resourcesOf i c) (children s))"

definition declared :: "'sp Stack \<Rightarrow> Kind list \<Rightarrow> string list" where
  "declared s ks = map fst (filter (\<lambda>(i, k). k \<in> set ks) (resources s))"


definition buckets :: "'sp Stack \<Rightarrow> (string \<times> BucketDecl) list" where
  "buckets s = [(i, d). (i, Bucket d) \<leftarrow> children s]"

definition securityGroups :: "'sp Stack \<Rightarrow> (string \<times> SecurityGroupDecl) list" where
  "securityGroups s = [(i, d). (i, SecurityGroup d) \<leftarrow> children s]"

definition lambdaFunctions :: "'sp Stack \<Rightarrow> (string \<times> FunctionDecl) list" where
  "lambdaFunctions s = [(i, d). (i, LambdaFunction d) \<leftarrow> children s]"

definition topics :: "'sp Stack \<Rightarrow> (string \<times> TopicDecl) list" where
  "topics s = [(i, d). (i, Topic d) \<leftarrow> children s]"

definition pipelines :: "'sp Stack \<Rightarrow> (string \<times> GithubBuildPipelineDecl) list" where
  "pipelines s = [(i, d). (i, GithubBuildPipeline d) \<leftarrow> children s]"

definition outputs :: "'sp Stack \<Rightarrow> (string \<times> tstring) list" where
  "outputs s = [(i, value' d). (i, CfnOutput d) \<leftarrow> children s]"


text \<open>
  The same readings on what the constructor returns, so that they can be taken at a
  concrete input: no stack has no outputs and no count.
\<close>

definition outputOf :: "(error + 'sp Stack) \<times> 'sp Scope \<Rightarrow> string \<Rightarrow> tstring option" where
  "outputOf r name =
     (case fst r of Inl e \<Rightarrow> None | Inr s \<Rightarrow> map_of (outputs s) name)"


text \<open>A configuration, a file system and a deployment to evaluate at.\<close>

definition exampleProps :: WorkshopInfrastructureProps where
  "exampleProps =
     \<lparr>kinesisReplayVersion = ''release-0.1.0'', beamApplicationVersion = ''release-0.2.0'',
      beamApplicationJarFile = ''amazon-kinesis-analytics-beam-taxi-consumer-0.2.0.jar'',
      appName = ''beam-workshop''\<rparr>"

definition exampleFs :: filesystem where
  "exampleFs =
     [''lambda/add-approximate-arrival-time.js'' \<mapsto> ''exports.handler = enrich'',
      ''lambda/stop-kda-app.py'' \<mapsto> ''def empty_bucket(event, context): stop()'']"

definition exampleEnv :: "Token \<Rightarrow> string" where
  "exampleEnv t =
     (case t of
        Aws PARTITION \<Rightarrow> ''aws''
      | Aws REGION \<Rightarrow> ''eu-west-1''
      | Aws ACCOUNT_ID \<Rightarrow> ''123456789012''
      | Attr i x \<Rightarrow> i @ ''-physical'')"

section \<open>The graph the constructor returns\<close>

lemma children_new: "children (this (new ident c t)) = children (this t) @ [(ident, c)]"
  by (simp add: new_def)

lemma children_modify:
  "children (this (modify ident f t)) =
     map (\<lambda>(i, c). if i = ident then (i, f c) else (i, c)) (children (this t))"
  by (simp add: modify_def)





lemma earlier_new: "earlier (new ident c t) = earlier t"
  by (simp add: new_def)

lemma earlier_modify: "earlier (modify ident f t) = earlier t"
  by (simp add: modify_def)

lemma earlier_declareStorageNetworkPipeline:
  "earlier (declareStorageNetworkPipeline scope ident props) = scope"
  by (simp add: declareStorageNetworkPipeline_def Let_def earlier_new earlier_modify
      addIngressRule_def super_def)

lemma earlier_declareEnrichEvents: "earlier (declareEnrichEvents a t) = earlier t"
  by (simp add: declareEnrichEvents_def Let_def earlier_new)

lemma earlier_declareTerminationRolesCluster:
  "earlier (declareTerminationRolesCluster b props t) = earlier t"
  by (simp add: declareTerminationRolesCluster_def Let_def earlier_new earlier_modify
      addToRolePolicy_def addSubscription_def addToPolicy_def grantRead_def)

lemma children_declareStorageNetworkPipeline:
  "children (this (declareStorageNetworkPipeline scope ident props)) =
    [(''Bucket'', Bucket \<lparr>versioned = True, removalPolicy = DESTROY\<rparr>),
     (''EmptyBucket'', EmptyBucketOnDelete \<lparr>emptiedBucket = ''Bucket''\<rparr>),
     (''S3Bucket'', CfnOutput \<lparr>value' = [Tok (Attr ''Bucket'' BucketName)]\<rparr>),
     (''InputS3Pattern'', CfnOutput \<lparr>value' =
        [Lit ''s3://'', Tok (Attr ''Bucket'' BucketName),
         Lit ''/historic-trip-events/*/*/*/*/*'']\<rparr>),
     (''Vpc'', Vpc \<lparr>subnetConfiguration =
        [\<lparr>subnetName = ''public'', subnetType = PUBLIC\<rparr>]\<rparr>),
     (''SecurityGroup'', SecurityGroup \<lparr>vpc = ''Vpc'', ingressRules =
        [(CidrIPv4 ''0.0.0.0/0'', Tcp 3389),
         (SecurityGroupPeer ''SecurityGroup'', AllTraffic)]\<rparr>),
     (''WindowsDevEnvironment'', WindowsDevEnvironment
        \<lparr>passedProps = props, devVpc = ''Vpc'', devSg = ''SecurityGroup'',
         devBucket = ''Bucket''\<rparr>),
     (''BeamConsumerBuildPipeline'', GithubBuildPipeline
        \<lparr>url = [Lit ''https://github.com/aws-samples/amazon-kinesis-analytics-beam-taxi-consumer/archive/'',
                Lit (beamApplicationVersion props), Lit ''.zip''],
         destinationBucket = ''Bucket'', extract' = True\<rparr>),
     (''BeamConsumerJarPath'', CfnOutput \<lparr>value' =
        [Lit ''target/'', Lit (beamApplicationJarFile props)]\<rparr>)]"
  by (simp add: declareStorageNetworkPipeline_def Let_def children_new children_modify
      addIngressRule_def anyIpv4_def super_def)

lemma children_declareEnrichEvents:
  "children (this (declareEnrichEvents a t)) = children (this t) @
    [(''EnrichEventsLambda'', LambdaFunction
        \<lparr>runtime = NODEJS_12_X, code = Inline a, timeout = Seconds 60,
         handler = ''index.handler'', memorySize = None, environment = [],
         rolePolicy = []\<rparr>),
     (''FirehoseTransformationLambda'', CfnOutput \<lparr>value' =
        [Tok (Attr ''EnrichEventsLambda'' FunctionName)]\<rparr>)]"
  by (simp add: declareEnrichEvents_def Let_def children_new)

lemma WorkshopInfrastructure_readable:
  assumes "fs ''lambda/add-approximate-arrival-time.js'' = Some a"
    and "fs ''lambda/stop-kda-app.py'' = Some b"
  shows "WorkshopInfrastructure fs scope ident props =
    (Inr (this (declareTerminationRolesCluster b props
            (declareEnrichEvents a (declareStorageNetworkPipeline scope ident props)))),
     scope @ [this (declareTerminationRolesCluster b props
            (declareEnrichEvents a (declareStorageNetworkPipeline scope ident props)))])"
  using assms
  by (simp add: WorkshopInfrastructure_def readFileSync_def Let_def scopeOf_def
      earlier_declareTerminationRolesCluster earlier_declareEnrichEvents
      earlier_declareStorageNetworkPipeline)

lemma WorkshopInfrastructure_children:
  assumes "fs ''lambda/add-approximate-arrival-time.js'' = Some a"
    and "fs ''lambda/stop-kda-app.py'' = Some b"
  shows "\<exists>s. WorkshopInfrastructure fs scope ident props = (Inr s, scope @ [s]) \<and>
    children s =
    [(''Bucket'', Bucket \<lparr>versioned = True, removalPolicy = DESTROY\<rparr>),
     (''EmptyBucket'', EmptyBucketOnDelete \<lparr>emptiedBucket = ''Bucket''\<rparr>),
     (''S3Bucket'', CfnOutput \<lparr>value' = [Tok (Attr ''Bucket'' BucketName)]\<rparr>),
     (''InputS3Pattern'', CfnOutput \<lparr>value' =
        [Lit ''s3://'', Tok (Attr ''Bucket'' BucketName),
         Lit ''/historic-trip-events/*/*/*/*/*'']\<rparr>),
     (''Vpc'', Vpc \<lparr>subnetConfiguration =
        [\<lparr>subnetName = ''public'', subnetType = PUBLIC\<rparr>]\<rparr>),
     (''SecurityGroup'', SecurityGroup \<lparr>vpc = ''Vpc'', ingressRules =
        [(CidrIPv4 ''0.0.0.0/0'', Tcp 3389),
         (SecurityGroupPeer ''SecurityGroup'', AllTraffic)]\<rparr>),
     (''WindowsDevEnvironment'', WindowsDevEnvironment
        \<lparr>passedProps = props, devVpc = ''Vpc'', devSg = ''SecurityGroup'',
         devBucket = ''Bucket''\<rparr>),
     (''BeamConsumerBuildPipeline'', GithubBuildPipeline
        \<lparr>url = [Lit ''https://github.com/aws-samples/amazon-kinesis-analytics-beam-taxi-consumer/archive/'',
                Lit (beamApplicationVersion props), Lit ''.zip''],
         destinationBucket = ''Bucket'', extract' = True\<rparr>),
     (''BeamConsumerJarPath'', CfnOutput \<lparr>value' =
        [Lit ''target/'', Lit (beamApplicationJarFile props)]\<rparr>),
     (''EnrichEventsLambda'', LambdaFunction
        \<lparr>runtime = NODEJS_12_X, code = Inline a, timeout = Seconds 60,
         handler = ''index.handler'', memorySize = None, environment = [],
         rolePolicy = []\<rparr>),
     (''FirehoseTransformationLambda'', CfnOutput \<lparr>value' =
        [Tok (Attr ''EnrichEventsLambda'' FunctionName)]\<rparr>),
     (''TerminateAppLambda'', LambdaFunction
        \<lparr>runtime = PYTHON_3_7, code = Inline b, timeout = Minutes 15,
         handler = ''index.empty_bucket'', memorySize = Some 512,
         environment = [(''application_name'', appName props)],
         rolePolicy =
           [\<lparr>actions = [''kinesisanalytics:StopApplication''],
             resources =
               [[Lit ''arn:'', Tok (Aws PARTITION), Lit '':kinesisanalytics:'',
                 Tok (Aws REGION), Lit '':'', Tok (Aws ACCOUNT_ID),
                 Lit '':application/'', Lit (appName props)]]\<rparr>]\<rparr>),
     (''ApplicationTerminatedTopic'', Topic
        \<lparr>subscriptions = [LambdaSubscription ''TerminateAppLambda'']\<rparr>),
     (''ApplicationTerminatedTopicName'', CfnOutput \<lparr>value' =
        [Tok (Attr ''ApplicationTerminatedTopic'' TopicName)]\<rparr>),
     (''KdaRole'', Role
        \<lparr>assumedBy = ServicePrincipal ''kinesisanalytics.amazonaws.com'',
         managedPolicies = [],
         policy =
           [\<lparr>actions = [''logs:Describe*'', ''logs:PutLogEvents'', ''kinesis:List*'',
                        ''kinesis:Describe*'', ''kinesis:Get*'', ''kinesis:SubscribeToShard''],
             resources = [[Lit ''*'']]\<rparr>],
         grants = [GrantRead ''Bucket'']\<rparr>),
     (''EmrClusterRole'', Role
        \<lparr>assumedBy = ServicePrincipal ''elasticmapreduce.amazonaws.com'',
         managedPolicies =
           [AwsManagedPolicyName ''service-role/AmazonElasticMapReduceRole''],
         policy = [], grants = []\<rparr>),
     (''EmrInstanceRole'', Role
        \<lparr>assumedBy = ServicePrincipal ''ec2.amazonaws.com'',
         managedPolicies =
           [AwsManagedPolicyName ''service-role/AmazonElasticMapReduceforEC2Role'',
            AwsManagedPolicyName ''AmazonSSMManagedInstanceCore''],
         policy = [], grants = []\<rparr>),
     (''EmrInstanceProfile'', CfnInstanceProfile
        \<lparr>roles = [[Tok (Attr ''EmrInstanceRole'' RoleName)]]\<rparr>),
     (''EmrCluster'', CfnCluster
        \<lparr>clusterName = ''beam-workshop'',
         applications =
           [\<lparr>applicationName = ''Hadoop''\<rparr>, \<lparr>applicationName = ''Ganglia''\<rparr>,
            \<lparr>applicationName = ''Flink''\<rparr>, \<lparr>applicationName = ''ZooKeeper''\<rparr>],
         instances =
           \<lparr>masterInstanceGroup =
              \<lparr>instanceCount = 1, instanceType = ''c5n.xlarge'', groupName = ''Master''\<rparr>,
            coreInstanceGroup =
              \<lparr>instanceCount = 2, instanceType = ''r5.xlarge'', groupName = ''Core''\<rparr>,
            additionalMasterSecurityGroups =
              [[Tok (Attr ''SecurityGroup'' SecurityGroupName)]],
            ec2SubnetId = [Tok (Attr ''Vpc'' (PublicSubnetId 0))]\<rparr>,
         serviceRole = [Tok (Attr ''EmrClusterRole'' RoleName)],
         releaseLabel = ''emr-5.27.0'',
         visibleToAllUsers = True,
         jobFlowRole = [Tok (Attr ''EmrInstanceProfile'' Ref)]\<rparr>)]"
  unfolding WorkshopInfrastructure_readable [OF assms]
  by (simp add: declareTerminationRolesCluster_def Let_def children_new children_modify
      children_declareEnrichEvents children_declareStorageNetworkPipeline
      addToRolePolicy_def addSubscription_def addToPolicy_def grantRead_def)

text \<open>
  No id is declared twice, so a lookup by id finds the one child of that id, and a call
  on an object reference changes that child only.
\<close>

lemma WorkshopInfrastructure_returns:
  assumes "WorkshopInfrastructure fs scope ident props = (Inr s, scope')"
  shows "\<exists>a b. fs ''lambda/add-approximate-arrival-time.js'' = Some a \<and>
    fs ''lambda/stop-kda-app.py'' = Some b"
  using assms
  by (auto simp: WorkshopInfrastructure_def readFileSync_def Let_def split: option.splits)

lemma WorkshopInfrastructure_ids_distinct:
  assumes "WorkshopInfrastructure fs scope ident props = (Inr s, scope')"
  shows "distinct (map fst (children s))"
proof -
  from WorkshopInfrastructure_returns [OF assms] obtain a b
    where "fs ''lambda/add-approximate-arrival-time.js'' = Some a"
      and "fs ''lambda/stop-kda-app.py'' = Some b"
    by blast
  from WorkshopInfrastructure_children [OF this, where scope = scope and ident = ident
      and props = props] assms
  show ?thesis by auto
qed

lemma exampleFs_enrich:
  "exampleFs ''lambda/add-approximate-arrival-time.js'' = Some ''exports.handler = enrich''"
  by (simp add: exampleFs_def)

lemma exampleFs_stop:
  "exampleFs ''lambda/stop-kda-app.py'' = Some ''def empty_bucket(event, context): stop()''"
  by (simp add: exampleFs_def)

section \<open>Properties of the synthesized graph\<close>

text \<open>
  C7: for every configuration, the one storage bucket of the graph is declared with
  versioning enabled and the removal policy \<^verbatim>\<open>DESTROY\<close>; the declaration is a
  constant, the same for every file system, stack id and configuration under which the
  constructor returns.
\<close>

theorem C7_bucket_versioned_destroy:
  assumes "fs ''lambda/add-approximate-arrival-time.js'' = Some a"
    and "fs ''lambda/stop-kda-app.py'' = Some b"
  shows "\<exists>s. WorkshopInfrastructure fs scope ident props = (Inr s, scope @ [s]) \<and>
    buckets s = [(''Bucket'', \<lparr>versioned = True, removalPolicy = DESTROY\<rparr>)]"
proof -
  from WorkshopInfrastructure_children [OF assms, where scope = scope and ident = ident
      and props = props]
  obtain s where "WorkshopInfrastructure fs scope ident props = (Inr s, scope @ [s])"
    and "buckets s = [(''Bucket'', \<lparr>versioned = True, removalPolicy = DESTROY\<rparr>)]"
    by (auto simp: buckets_def)
  then show ?thesis by blast
qed

theorem C7_bucket_versioned_destroy_witness:
  "\<exists>s. WorkshopInfrastructure exampleFs [] ''Workshop'' exampleProps = (Inr s, [s]) \<and>
    buckets s = [(''Bucket'', \<lparr>versioned = True, removalPolicy = DESTROY\<rparr>)]"
  using C7_bucket_versioned_destroy [OF exampleFs_enrich exampleFs_stop,
      where scope = "[]" and ident = "''Workshop''" and props = exampleProps]
  by simp

text \<open>
  C2: for every configuration, the graph has one security group, and its ingress rules
  are exactly two: TCP port 3389 from \<^verbatim>\<open>0.0.0.0/0\<close>, and all traffic from the
  security group itself.
\<close>

theorem C2_security_group_ingress:
  assumes "fs ''lambda/add-approximate-arrival-time.js'' = Some a"
    and "fs ''lambda/stop-kda-app.py'' = Some b"
  shows "\<exists>s. WorkshopInfrastructure fs scope ident props = (Inr s, scope @ [s]) \<and>
    securityGroups s =
      [(''SecurityGroup'',
        \<lparr>vpc = ''Vpc'',
         ingressRules = [(CidrIPv4 ''0.0.0.0/0'', Tcp 3389),
                         (SecurityGroupPeer ''SecurityGroup'', AllTraffic)]\<rparr>)]"
proof -
  from WorkshopInfrastructure_children [OF assms, where scope = scope and ident = ident
      and props = props]
  obtain s where ok: "WorkshopInfrastructure fs scope ident props = (Inr s, scope @ [s])"
    and sg: "securityGroups s =
      [(''SecurityGroup'',
        \<lparr>vpc = ''Vpc'',
         ingressRules = [(CidrIPv4 ''0.0.0.0/0'', Tcp 3389),
                         (SecurityGroupPeer ''SecurityGroup'', AllTraffic)]\<rparr>)]"
    by (auto simp: securityGroups_def)
  from ok sg show ?thesis by blast
qed

theorem C2_security_group_ingress_witness:
  "\<exists>s. WorkshopInfrastructure exampleFs [] ''Workshop'' exampleProps = (Inr s, [s]) \<and>
    securityGroups s =
      [(''SecurityGroup'',
        \<lparr>vpc = ''Vpc'',
         ingressRules = [(CidrIPv4 ''0.0.0.0/0'', Tcp 3389),
                         (SecurityGroupPeer ''SecurityGroup'', AllTraffic)]\<rparr>)]"
  using C2_security_group_ingress [OF exampleFs_enrich exampleFs_stop,
      where scope = "[]" and ident = "''Workshop''" and props = exampleProps]
  by simp

text \<open>
  C3: for every configuration, the role policy of the termination function holds one
  statement; it grants the one action \<^verbatim>\<open>kinesisanalytics:StopApplication\<close> on one
  resource, an ARN that reads
  \<^verbatim>\<open>arn:<partition>:kinesisanalytics:<region>:<account>:application/<appName>\<close>
  whatever the deployment substitutes for the three pseudo parameters.
\<close>

theorem C3_stop_application_statement:
  assumes "fs ''lambda/add-approximate-arrival-time.js'' = Some a"
    and "fs ''lambda/stop-kda-app.py'' = Some b"
  shows "\<exists>s arn. WorkshopInfrastructure fs scope ident props = (Inr s, scope @ [s]) \<and>
    map_option rolePolicy (map_of (lambdaFunctions s) ''TerminateAppLambda'') =
      Some [\<lparr>actions = [''kinesisanalytics:StopApplication''], resources = [arn]\<rparr>] \<and>
    resolve env arn =
      ''arn:'' @ env (Aws PARTITION) @ '':kinesisanalytics:'' @ env (Aws REGION) @ '':'' @
      env (Aws ACCOUNT_ID) @ '':application/'' @ appName props"
proof -
  from WorkshopInfrastructure_children [OF assms, where scope = scope and ident = ident
      and props = props]
  obtain s where ok: "WorkshopInfrastructure fs scope ident props = (Inr s, scope @ [s])"
    and st: "map_option rolePolicy (map_of (lambdaFunctions s) ''TerminateAppLambda'') =
      Some [\<lparr>actions = [''kinesisanalytics:StopApplication''],
             resources = [[Lit ''arn:'', Tok (Aws PARTITION), Lit '':kinesisanalytics:'',
                 Tok (Aws REGION), Lit '':'', Tok (Aws ACCOUNT_ID),
                 Lit '':application/'', Lit (appName props)]]\<rparr>]"
    by (auto simp: lambdaFunctions_def)
  have "resolve env [Lit ''arn:'', Tok (Aws PARTITION), Lit '':kinesisanalytics:'',
                 Tok (Aws REGION), Lit '':'', Tok (Aws ACCOUNT_ID),
                 Lit '':application/'', Lit (appName props)] =
      ''arn:'' @ env (Aws PARTITION) @ '':kinesisanalytics:'' @ env (Aws REGION) @ '':'' @
      env (Aws ACCOUNT_ID) @ '':application/'' @ appName props"
    by (simp add: resolve_def)
  with ok st show ?thesis by blast
qed

theorem C3_stop_application_statement_witness:
  "\<exists>s arn. WorkshopInfrastructure exampleFs [] ''Workshop'' exampleProps = (Inr s, [s]) \<and>
    map_option rolePolicy (map_of (lambdaFunctions s) ''TerminateAppLambda'') =
      Some [\<lparr>actions = [''kinesisanalytics:StopApplication''], resources = [arn]\<rparr>] \<and>
    resolve exampleEnv arn =
      ''arn:aws:kinesisanalytics:eu-west-1:123456789012:application/beam-workshop''"
  using C3_stop_application_statement [OF exampleFs_enrich exampleFs_stop,
      where scope = "[]" and ident = "''Workshop''" and props = exampleProps
      and env = exampleEnv]
  by (simp add: exampleEnv_def exampleProps_def)

text \<open>
  C5: for every configuration, the output \<^verbatim>\<open>InputS3Pattern\<close> is
  \<^verbatim>\<open>s3://<bucket-name>/historic-trip-events/*/*/*/*/*\<close>, where the bucket name is
  the name the deployment gives to the one bucket of the same graph (the child
  \<^verbatim>\<open>Bucket\<close>, which the output \<^verbatim>\<open>S3Bucket\<close> names too).
\<close>

theorem C5_input_s3_pattern:
  assumes "fs ''lambda/add-approximate-arrival-time.js'' = Some a"
    and "fs ''lambda/stop-kda-app.py'' = Some b"
  shows "\<exists>s. WorkshopInfrastructure fs scope ident props = (Inr s, scope @ [s]) \<and>
    map_option (resolve env) (map_of (outputs s) ''InputS3Pattern'') =
      Some (''s3://'' @ env (Attr ''Bucket'' BucketName) @ ''/historic-trip-events/*/*/*/*/*'') \<and>
    declared s [KBucket] = [''Bucket''] \<and>
    map_of (outputs s) ''S3Bucket'' = Some [Tok (Attr ''Bucket'' BucketName)]"
proof -
  from WorkshopInfrastructure_children [OF assms, where scope = scope and ident = ident
      and props = props]
  obtain s where ok: "WorkshopInfrastructure fs scope ident props = (Inr s, scope @ [s])"
    and out: "map_of (outputs s) ''InputS3Pattern'' =
      Some [Lit ''s3://'', Tok (Attr ''Bucket'' BucketName),
            Lit ''/historic-trip-events/*/*/*/*/*'']"
    and bucket: "declared s [KBucket] = [''Bucket'']"
    and name: "map_of (outputs s) ''S3Bucket'' = Some [Tok (Attr ''Bucket'' BucketName)]"
    by (auto simp: outputs_def declared_def resources_def)
  from out have "map_option (resolve env) (map_of (outputs s) ''InputS3Pattern'') =
      Some (''s3://'' @ env (Attr ''Bucket'' BucketName) @ ''/historic-trip-events/*/*/*/*/*'')"
    by (simp add: resolve_def)
  with ok bucket name show ?thesis by blast
qed

theorem C5_input_s3_pattern_witness:
  "\<exists>s. WorkshopInfrastructure exampleFs [] ''Workshop'' exampleProps = (Inr s, [s]) \<and>
    map_option (resolve exampleEnv) (map_of (outputs s) ''InputS3Pattern'') =
      Some ''s3://Bucket-physical/historic-trip-events/*/*/*/*/*'' \<and>
    declared s [KBucket] = [''Bucket''] \<and>
    map_of (outputs s) ''S3Bucket'' = Some [Tok (Attr ''Bucket'' BucketName)]"
  using C5_input_s3_pattern [OF exampleFs_enrich exampleFs_stop,
      where scope = "[]" and ident = "''Workshop''" and props = exampleProps
      and env = exampleEnv]
  by (simp add: exampleEnv_def)

text \<open>
  C8: for every configuration, the graph has one notification topic, the topic has
  exactly one subscription, and the subscriber is the termination function: the function
  \<^verbatim>\<open>TerminateAppLambda\<close>, whose code is the contents of
  \<^verbatim>\<open>lambda/stop-kda-app.py\<close>.
\<close>

theorem C8_topic_subscription:
  assumes "fs ''lambda/add-approximate-arrival-time.js'' = Some a"
    and "fs ''lambda/stop-kda-app.py'' = Some b"
  shows "\<exists>s. WorkshopInfrastructure fs scope ident props = (Inr s, scope @ [s]) \<and>
    topics s =
      [(''ApplicationTerminatedTopic'',
        \<lparr>subscriptions = [LambdaSubscription ''TerminateAppLambda'']\<rparr>)] \<and>
    map_option code (map_of (lambdaFunctions s) ''TerminateAppLambda'') = Some (Inline b)"
proof -
  from WorkshopInfrastructure_children [OF assms, where scope = scope and ident = ident
      and props = props]
  obtain s where ok: "WorkshopInfrastructure fs scope ident props = (Inr s, scope @ [s])"
    and tp: "topics s =
      [(''ApplicationTerminatedTopic'',
        \<lparr>subscriptions = [LambdaSubscription ''TerminateAppLambda'']\<rparr>)]"
    and fn: "map_option code (map_of (lambdaFunctions s) ''TerminateAppLambda'') =
      Some (Inline b)"
    by (auto simp: topics_def lambdaFunctions_def)
  then show ?thesis by blast
qed

theorem C8_topic_subscription_witness:
  "\<exists>s. WorkshopInfrastructure exampleFs [] ''Workshop'' exampleProps = (Inr s, [s]) \<and>
    topics s =
      [(''ApplicationTerminatedTopic'',
        \<lparr>subscriptions = [LambdaSubscription ''TerminateAppLambda'']\<rparr>)] \<and>
    map_option code (map_of (lambdaFunctions s) ''TerminateAppLambda'') =
      Some (Inline ''def empty_bucket(event, context): stop()'')"
  using C8_topic_subscription [OF exampleFs_enrich exampleFs_stop,
      where scope = "[]" and ident = "''Workshop''" and props = exampleProps]
  by simp

text \<open>
  C10: for every configuration, the two functions of the graph are the enrichment
  function, with runtime \<^verbatim>\<open>NODEJS_12_X\<close> and handler \<^verbatim>\<open>index.handler\<close>, and the
  termination function, with runtime \<^verbatim>\<open>PYTHON_3_7\<close>, 512 MB of memory and handler
  \<^verbatim>\<open>index.empty_bucket\<close>; none of these values mentions the configuration.
\<close>

theorem C10_function_constants:
  assumes "fs ''lambda/add-approximate-arrival-time.js'' = Some a"
    and "fs ''lambda/stop-kda-app.py'' = Some b"
  shows "\<exists>s enrichEvents terminateAppLambda.
    WorkshopInfrastructure fs scope ident props = (Inr s, scope @ [s]) \<and>
    lambdaFunctions s =
      [(''EnrichEventsLambda'', enrichEvents), (''TerminateAppLambda'', terminateAppLambda)] \<and>
    runtime enrichEvents = NODEJS_12_X \<and>
    handler enrichEvents = ''index.handler'' \<and>
    runtime terminateAppLambda = PYTHON_3_7 \<and>
    memorySize terminateAppLambda = Some 512 \<and>
    handler terminateAppLambda = ''index.empty_bucket''"
proof -
  from WorkshopInfrastructure_children [OF assms, where scope = scope and ident = ident
      and props = props]
  obtain s where ok: "WorkshopInfrastructure fs scope ident props = (Inr s, scope @ [s])"
    and fns: "lambdaFunctions s =
      [(''EnrichEventsLambda'',
        \<lparr>runtime = NODEJS_12_X, code = Inline a, timeout = Seconds 60,
         handler = ''index.handler'', memorySize = None, environment = [],
         rolePolicy = []\<rparr>),
       (''TerminateAppLambda'',
        \<lparr>runtime = PYTHON_3_7, code = Inline b, timeout = Minutes 15,
         handler = ''index.empty_bucket'', memorySize = Some 512,
         environment = [(''application_name'', appName props)],
         rolePolicy =
           [\<lparr>actions = [''kinesisanalytics:StopApplication''],
             resources =
               [[Lit ''arn:'', Tok (Aws PARTITION), Lit '':kinesisanalytics:'',
                 Tok (Aws REGION), Lit '':'', Tok (Aws ACCOUNT_ID),
                 Lit '':application/'', Lit (appName props)]]\<rparr>]\<rparr>)]"
    by (auto simp: lambdaFunctions_def)
  show ?thesis
    apply (rule exI [of _ s])
    apply (rule exI [of _ "snd (lambdaFunctions s ! 0)"])
    apply (rule exI [of _ "snd (lambdaFunctions s ! 1)"])
    apply (simp add: ok fns)
    done
qed

theorem C10_function_constants_witness:
  "\<exists>s enrichEvents terminateAppLambda.
    WorkshopInfrastructure exampleFs [] ''Workshop'' exampleProps = (Inr s, [s]) \<and>
    lambdaFunctions s =
      [(''EnrichEventsLambda'', enrichEvents), (''TerminateAppLambda'', terminateAppLambda)] \<and>
    runtime enrichEvents = NODEJS_12_X \<and>
    handler enrichEvents = ''index.handler'' \<and>
    runtime terminateAppLambda = PYTHON_3_7 \<and>
    memorySize terminateAppLambda = Some 512 \<and>
    handler terminateAppLambda = ''index.empty_bucket''"
  using C10_function_constants [OF exampleFs_enrich exampleFs_stop,
      where scope = "[]" and ident = "''Workshop''" and props = exampleProps]
  by simp




text \<open>
  C1, as the spec states it: changing only \<^verbatim>\<open>beamApplicationVersion\<close> changes the
  output \<^verbatim>\<open>BeamConsumerJarPath\<close>, the new version substituted into it. At the example
  configuration, with the version changed from \<^verbatim>\<open>release-0.2.0\<close> to
  \<^verbatim>\<open>release-0.3.0\<close>, the output is what it was and holds neither version.
\<close>

theorem C1_jar_path_counterexample:
  "outputOf (WorkshopInfrastructure exampleFs [] ''Workshop''
       (exampleProps\<lparr>beamApplicationVersion := ''release-0.3.0''\<rparr>)) ''BeamConsumerJarPath'' =
     Some [Lit ''target/'', Lit ''amazon-kinesis-analytics-beam-taxi-consumer-0.2.0.jar''] \<and>
   outputOf (WorkshopInfrastructure exampleFs [] ''Workshop'' exampleProps)
       ''BeamConsumerJarPath'' =
     Some [Lit ''target/'', Lit ''amazon-kinesis-analytics-beam-taxi-consumer-0.2.0.jar'']"
proof -
  from WorkshopInfrastructure_children [OF exampleFs_enrich exampleFs_stop,
      where scope = "[]" and ident = "''Workshop''"
      and props = "exampleProps\<lparr>beamApplicationVersion := ''release-0.3.0''\<rparr>"]
  have changed: "outputOf (WorkshopInfrastructure exampleFs [] ''Workshop''
       (exampleProps\<lparr>beamApplicationVersion := ''release-0.3.0''\<rparr>)) ''BeamConsumerJarPath'' =
     Some [Lit ''target/'', Lit ''amazon-kinesis-analytics-beam-taxi-consumer-0.2.0.jar'']"
    by (auto simp: outputOf_def outputs_def exampleProps_def)
  from WorkshopInfrastructure_children [OF exampleFs_enrich exampleFs_stop,
      where scope = "[]" and ident = "''Workshop''" and props = exampleProps]
  have "outputOf (WorkshopInfrastructure exampleFs [] ''Workshop'' exampleProps)
       ''BeamConsumerJarPath'' =
     Some [Lit ''target/'', Lit ''amazon-kinesis-analytics-beam-taxi-consumer-0.2.0.jar'']"
    by (auto simp: outputOf_def outputs_def exampleProps_def)
  with changed show ?thesis by simp
qed

text \<open>
  C1, amended: for every configuration, setting only \<^verbatim>\<open>beamApplicationVersion\<close> to
  a version \<open>v\<close> makes the archive URL of the build pipeline
  \<^verbatim>\<open>https://github.com/aws-samples/amazon-kinesis-analytics-beam-taxi-consumer/archive/<v>.zip\<close>
  and leaves the output \<^verbatim>\<open>BeamConsumerJarPath\<close> as it was: that output is
  \<^verbatim>\<open>target/<beamApplicationJarFile>\<close>, built from the jar file field alone.
\<close>

theorem C1_version_in_archive_url_only:
  assumes "fs ''lambda/add-approximate-arrival-time.js'' = Some a"
    and "fs ''lambda/stop-kda-app.py'' = Some b"
  shows "\<exists>s s'. WorkshopInfrastructure fs scope ident props = (Inr s, scope @ [s]) \<and>
    WorkshopInfrastructure fs scope ident (props\<lparr>beamApplicationVersion := v\<rparr>) =
      (Inr s', scope @ [s']) \<and>
    map_option (resolve env \<circ> url) (map_of (pipelines s') ''BeamConsumerBuildPipeline'') =
      Some (''https://github.com/aws-samples/amazon-kinesis-analytics-beam-taxi-consumer/archive/''
            @ v @ ''.zip'') \<and>
    map_option (resolve env) (map_of (outputs s') ''BeamConsumerJarPath'') =
      Some (''target/'' @ beamApplicationJarFile props) \<and>
    map_of (outputs s') ''BeamConsumerJarPath'' = map_of (outputs s) ''BeamConsumerJarPath'' \<and>
    (map_of (pipelines s') ''BeamConsumerBuildPipeline'' =
       map_of (pipelines s) ''BeamConsumerBuildPipeline'') = (v = beamApplicationVersion props)"
proof -
  from WorkshopInfrastructure_children [OF assms, where scope = scope and ident = ident
      and props = props]
  obtain s where ok: "WorkshopInfrastructure fs scope ident props = (Inr s, scope @ [s])"
    and out: "map_of (outputs s) ''BeamConsumerJarPath'' =
      Some [Lit ''target/'', Lit (beamApplicationJarFile props)]"
    and pipe0: "map_of (pipelines s) ''BeamConsumerBuildPipeline'' =
      Some \<lparr>url = [Lit ''https://github.com/aws-samples/amazon-kinesis-analytics-beam-taxi-consumer/archive/'',
            Lit (beamApplicationVersion props), Lit ''.zip''],
            destinationBucket = ''Bucket'', extract' = True\<rparr>"
    by (auto simp: outputs_def pipelines_def)
  from WorkshopInfrastructure_children [OF assms, where scope = scope and ident = ident
      and props = "props\<lparr>beamApplicationVersion := v\<rparr>"]
  obtain s' where ok': "WorkshopInfrastructure fs scope ident
        (props\<lparr>beamApplicationVersion := v\<rparr>) = (Inr s', scope @ [s'])"
    and out': "map_of (outputs s') ''BeamConsumerJarPath'' =
      Some [Lit ''target/'', Lit (beamApplicationJarFile props)]"
    and pipe: "map_of (pipelines s') ''BeamConsumerBuildPipeline'' =
      Some \<lparr>url = [Lit ''https://github.com/aws-samples/amazon-kinesis-analytics-beam-taxi-consumer/archive/'',
            Lit v, Lit ''.zip''],
            destinationBucket = ''Bucket'', extract' = True\<rparr>"
    by (auto simp: outputs_def pipelines_def)
  from pipe pipe0
  have "(map_of (pipelines s') ''BeamConsumerBuildPipeline'' =
       map_of (pipelines s) ''BeamConsumerBuildPipeline'') = (v = beamApplicationVersion props)"
    by auto
  moreover from pipe
  have "map_option (resolve env \<circ> url) (map_of (pipelines s') ''BeamConsumerBuildPipeline'') =
      Some (''https://github.com/aws-samples/amazon-kinesis-analytics-beam-taxi-consumer/archive/''
            @ v @ ''.zip'')"
    by (auto simp: resolve_def)
  moreover from out'
  have "map_option (resolve env) (map_of (outputs s') ''BeamConsumerJarPath'') =
      Some (''target/'' @ beamApplicationJarFile props)"
    by (simp add: resolve_def)
  ultimately show ?thesis using ok ok' out out' by auto
qed

theorem C1_version_in_archive_url_only_witness:
  "\<exists>s s'. WorkshopInfrastructure exampleFs [] ''Workshop'' exampleProps = (Inr s, [s]) \<and>
    WorkshopInfrastructure exampleFs [] ''Workshop''
      (exampleProps\<lparr>beamApplicationVersion := ''release-0.3.0''\<rparr>) = (Inr s', [s']) \<and>
    map_option (resolve exampleEnv \<circ> url)
        (map_of (pipelines s') ''BeamConsumerBuildPipeline'') =
      Some ''https://github.com/aws-samples/amazon-kinesis-analytics-beam-taxi-consumer/archive/release-0.3.0.zip'' \<and>
    map_option (resolve exampleEnv) (map_of (outputs s') ''BeamConsumerJarPath'') =
      Some ''target/amazon-kinesis-analytics-beam-taxi-consumer-0.2.0.jar'' \<and>
    map_of (outputs s') ''BeamConsumerJarPath'' = map_of (outputs s) ''BeamConsumerJarPath'' \<and>
    map_of (pipelines s') ''BeamConsumerBuildPipeline'' \<noteq>
      map_of (pipelines s) ''BeamConsumerBuildPipeline''"
  using C1_version_in_archive_url_only [OF exampleFs_enrich exampleFs_stop,
      where scope = "[]" and ident = "''Workshop''" and props = exampleProps
      and v = "''release-0.3.0''" and env = exampleEnv]
  by (simp add: exampleProps_def)




end
